theory Spec2Isabelle
  imports Complex_Main "HOL-Library.Sublist"
begin

section \<open>The JavaScript values the pipeline handles\<close>

text \<open>
  A JavaScript string is a sequence of code units. The model uses \<^typ>\<open>string\<close>: the
  strings whose code units are below 256 (Basic Latin and Latin-1 Supplement), one
  \<^typ>\<open>char\<close> per code unit.

  A JavaScript number is a binary64 float. The model keeps \<open>NaN\<close> and the two infinities
  as values of their own and carries every finite number as an exact rational: the
  rounding of binary64 is not modelled (a decimal literal denotes its exact value).
  \<open>-0\<close> and \<open>0\<close> are both \<open>Num 0\<close>; the code never tells them apart.
\<close>

datatype jsnum = NaN | PosInfinity | NegInfinity | Num rat

text \<open>ToBoolean on a number: \<open>NaN\<close> and zero are falsy.\<close>

definition truthy_num :: "jsnum \<Rightarrow> bool" where
  "truthy_num x = (x \<noteq> NaN \<and> x \<noteq> Num 0)"

text \<open>\<open>x || y\<close> on two numbers.\<close>

definition orNum :: "jsnum \<Rightarrow> jsnum \<Rightarrow> jsnum" where
  "orNum x y = (if truthy_num x then x else y)"

text \<open>
  The value of a property of the flexible properties object, as
  \<open>HubSpotDealProperties\<close> declares it: \<open>string | null | undefined\<close>.
\<close>

datatype prop_value = Undefined | Null | Str string

text \<open>ToBoolean on such a value: only a non-empty string is truthy.\<close>

definition truthy :: "prop_value \<Rightarrow> bool" where
  "truthy v = (case v of Str s \<Rightarrow> s \<noteq> [] | _ \<Rightarrow> False)"

text \<open>\<open>a || b\<close> on two property values.\<close>

definition orVal :: "prop_value \<Rightarrow> prop_value \<Rightarrow> prop_value" where
  "orVal a b = (if truthy a then a else b)"

text \<open>\<open>a || "literal"\<close>: the result is a string.\<close>

definition orStr :: "prop_value \<Rightarrow> string \<Rightarrow> string" where
  "orStr a d = (case a of Str s \<Rightarrow> (if s \<noteq> [] then s else d) | _ \<Rightarrow> d)"

text \<open>\<open>a || undefined\<close>: the truthy string or nothing.\<close>

definition orUndefined :: "prop_value \<Rightarrow> string option" where
  "orUndefined a = (case a of Str s \<Rightarrow> (if s \<noteq> [] then Some s else None) | _ \<Rightarrow> None)"

text \<open>
  An object is given by its entries in the order of \<open>Object.entries\<close>; reading a
  property that the object does not have gives \<open>undefined\<close>.
\<close>

type_synonym HubSpotDealProperties = "(string \<times> prop_value) list"

definition getProp :: "HubSpotDealProperties \<Rightarrow> string \<Rightarrow> prop_value" where
  "getProp props key = (case map_of props key of None \<Rightarrow> Undefined | Some v \<Rightarrow> v)"

subsection \<open>String.prototype.toLowerCase and String.prototype.includes\<close>

definition lower_char :: "char \<Rightarrow> char" where
  "lower_char c =
     (let n = (of_char c :: nat)
      in if (65 \<le> n \<and> n \<le> 90) \<or> (192 \<le> n \<and> n \<le> 214) \<or> (216 \<le> n \<and> n \<le> 222)
         then char_of (n + 32) else c)"

text \<open>
  Lower case within Latin-1: \<open>A\<close> to \<open>Z\<close> and the accented capitals (192 to 222, the
  multiplication sign 215 apart) move up by 32; every other code unit stays.
\<close>

definition toLowerCase :: "string \<Rightarrow> string" where
  "toLowerCase s = map lower_char s"

text \<open>\<open>s.includes(t)\<close>: \<open>t\<close> occurs in \<open>s\<close> as a contiguous block.\<close>

fun includes_str :: "string \<Rightarrow> string \<Rightarrow> bool" where
  "includes_str [] t = (t = [])"
| "includes_str (c # cs) t = (prefix t (c # cs) \<or> includes_str cs t)"

subsection \<open>parseFloat and parseInt\<close>

definition isWhiteSpace :: "char \<Rightarrow> bool" where
  "isWhiteSpace c = ((of_char c :: nat) \<in> {9, 10, 11, 12, 13, 32, 160})"

definition isDigit :: "char \<Rightarrow> bool" where
  "isDigit c = (48 \<le> (of_char c :: nat) \<and> (of_char c :: nat) \<le> 57)"

definition digitVal :: "char \<Rightarrow> nat" where
  "digitVal c = of_char c - 48"

definition decimalValue :: "string \<Rightarrow> nat" where
  "decimalValue ds = fold (\<lambda>c n. 10 * n + digitVal c) ds 0"

text \<open>An optional sign: whether it is a minus, and the rest of the string.\<close>

fun readSign :: "string \<Rightarrow> bool \<times> string" where
  "readSign [] = (False, [])"
| "readSign (c # cs) =
     (if c = CHR ''-'' then (True, cs)
      else if c = CHR ''+'' then (False, cs)
      else (False, c # cs))"

text \<open>
  The exponent part after the mantissa, when it is well formed (\<open>e\<close> or \<open>E\<close>, an
  optional sign, at least one digit); otherwise the mantissa alone is the longest
  prefix that is a literal and the exponent is 0.
\<close>

fun readExponent :: "string \<Rightarrow> int" where
  "readExponent [] = 0"
| "readExponent (c # cs) =
     (if c = CHR ''e'' \<or> c = CHR ''E'' then
        (let (neg, r) = readSign cs; ds = takeWhile isDigit r
         in if ds = [] then 0
            else if neg then - int (decimalValue ds) else int (decimalValue ds))
      else 0)"

definition scale10 :: "rat \<Rightarrow> int \<Rightarrow> rat" where
  "scale10 m e = (if 0 \<le> e then m * 10 ^ nat e else m / 10 ^ nat (- e))"

text \<open>
  \<open>parseFloat(s)\<close>: skip leading white space, then take the longest prefix that is a
  decimal literal (\<open>Infinity\<close>, or digits with an optional fraction and exponent, with
  an optional sign); \<open>NaN\<close> when there is none.
\<close>

definition parseFloat :: "string \<Rightarrow> jsnum" where
  "parseFloat s =
     (let (neg, u) = readSign (dropWhile isWhiteSpace s)
      in if take 8 u = ''Infinity'' then (if neg then NegInfinity else PosInfinity)
         else
           (let ip = takeWhile isDigit u;
                r1 = dropWhile isDigit u;
                hasDot = (r1 \<noteq> [] \<and> hd r1 = CHR ''.'');
                fp = (if hasDot then takeWhile isDigit (tl r1) else []);
                r2 = (if hasDot then dropWhile isDigit (tl r1) else r1)
            in if ip = [] \<and> fp = [] then NaN
               else
                 (let m = rat_of_nat (decimalValue ip)
                          + rat_of_nat (decimalValue fp) / 10 ^ length fp;
                      v = scale10 m (readExponent r2)
                  in Num (if neg then - v else v))))"

definition isHexDigit :: "char \<Rightarrow> bool" where
  "isHexDigit c =
     (let n = (of_char c :: nat)
      in (48 \<le> n \<and> n \<le> 57) \<or> (65 \<le> n \<and> n \<le> 70) \<or> (97 \<le> n \<and> n \<le> 102))"

definition hexDigitVal :: "char \<Rightarrow> nat" where
  "hexDigitVal c =
     (let n = (of_char c :: nat)
      in if n \<le> 57 then n - 48 else if n \<le> 70 then n - 55 else n - 87)"

definition hexValue :: "string \<Rightarrow> nat" where
  "hexValue ds = fold (\<lambda>c n. 16 * n + hexDigitVal c) ds 0"

text \<open>
  \<open>parseInt(s)\<close> with no radix: skip leading white space, read an optional sign, then
  hexadecimal digits after a \<open>0x\<close> or \<open>0X\<close> prefix and decimal digits otherwise;
  \<open>NaN\<close> when there is no digit.
\<close>

definition parseInt :: "string \<Rightarrow> jsnum" where
  "parseInt s =
     (let (neg, u) = readSign (dropWhile isWhiteSpace s);
          hex = (take 2 u = ''0x'' \<or> take 2 u = ''0X'');
          ds = (if hex then takeWhile isHexDigit (drop 2 u) else takeWhile isDigit u)
      in if ds = [] then NaN
         else
           (let v = rat_of_nat (if hex then hexValue ds else decimalValue ds)
            in Num (if neg then - v else v)))"


subsection \<open>Numeric strings\<close>

text \<open>
  In the words of the specification a property is \<open>numeric\<close>, or parses as a
  floating-point number, when the string denotes a number. As a predicate of its own,
  independent of \<open>parseFloat\<close>: white space at both ends apart, the whole string is
  an optional sign followed by \<open>Infinity\<close> or by digits with an optional fraction (at
  least one digit in all) and an optional exponent.
\<close>

definition trim :: "string \<Rightarrow> string" where
  "trim s = rev (dropWhile isWhiteSpace (rev (dropWhile isWhiteSpace s)))"

fun isExponentPart :: "string \<Rightarrow> bool" where
  "isExponentPart [] = False"
| "isExponentPart (c # cs) =
     ((c = CHR ''e'' \<or> c = CHR ''E'')
      \<and> snd (readSign cs) \<noteq> [] \<and> list_all isDigit (snd (readSign cs)))"

definition numericString :: "string \<Rightarrow> bool" where
  "numericString s =
     (let body = snd (readSign (trim s))
      in if body = ''Infinity'' then True
         else
           (let ip = takeWhile isDigit body;
                r = dropWhile isDigit body;
                hasDot = (r \<noteq> [] \<and> hd r = CHR ''.'');
                fp = (if hasDot then takeWhile isDigit (tl r) else []);
                e = (if hasDot then dropWhile isDigit (tl r) else r)
            in \<not> (ip = [] \<and> fp = []) \<and> (e = [] \<or> isExponentPart e)))"

section \<open>The data model (hubspotModels.ts)\<close>

text \<open>
  A \<open>Date\<close> object holds a time value: milliseconds since the epoch, or \<open>NaN\<close> (an
  invalid date). As an object it is truthy, whichever it holds.
\<close>

datatype Date = ValidDate int | InvalidDate

definition getTime :: "Date \<Rightarrow> int option" where
  "getTime d = (case d of ValidDate t \<Rightarrow> Some t | InvalidDate \<Rightarrow> None)"

definition truthy_date :: "Date \<Rightarrow> bool" where
  "truthy_date d = True"

text \<open>
  What the transform takes from its host: how a string is read as a date
  (\<open>Date.parse\<close>, implementation-defined outside the ISO format; \<open>None\<close> is \<open>NaN\<close>) and
  the wall clock. \<open>clock rt n\<close> is the reading that the \<open>n\<close>-th call of \<open>parseDate\<close>
  within one run of the transform gets from \<open>new Date()\<close>.
\<close>

record runtime =
  dateParse :: "string \<Rightarrow> int option"
  clock :: "nat \<Rightarrow> int"

text \<open>\<open>new Date(s)\<close> for a string \<open>s\<close>; it never throws.\<close>

definition newDate :: "runtime \<Rightarrow> string \<Rightarrow> Date" where
  "newDate rt s = (case dateParse rt s of Some t \<Rightarrow> ValidDate t | None \<Rightarrow> InvalidDate)"

record HubSpotDealAssociations =
  contacts :: "string list option"
  companies :: "string list option"

text \<open>
  \<open>HubSpotDealRaw\<close>. The interface declares every field as required. The model lets
  a record arrive incomplete: \<open>id\<close>, \<open>properties\<close> and \<open>associations\<close> may be missing
  (a missing \<open>id\<close> is copied as it is; reading a property of a missing object throws),
  and a property may be missing, null or undefined as \<open>HubSpotDealProperties\<close>
  declares. A value that is present has its declared type. In particular a property
  value that is there is a string: a truthy value of another type in \<open>dealstage\<close>, on
  which \<open>stage.toLowerCase()\<close> would throw, is outside the model.
\<close>

record HubSpotDealRaw =
  raw_id :: "string option"
  raw_properties :: "HubSpotDealProperties option"
  raw_createdAt :: string
  raw_updatedAt :: string
  raw_archived :: bool
  raw_associations :: "HubSpotDealAssociations option"

text \<open>\<open>HubSpotDeal\<close>, the normalized deal.\<close>

record HubSpotDeal =
  deal_id :: "string option"
  dealName :: string
  amount :: jsnum
  currency :: string
  stage :: string
  stageLabel :: string
  pipeline :: string
  pipelineLabel :: string
  dealType :: "string option"
  closeDate :: "Date option"
  createdAt :: Date
  lastModifiedAt :: Date
  ownerId :: "string option"
  stageProbability :: jsnum
  forecastAmount :: jsnum
  projectedAmount :: jsnum
  daysToClose :: "jsnum option"
  isWon :: bool
  isClosed :: bool
  isArchived :: bool
  contactCount :: jsnum
  noteCount :: jsnum
  associatedContacts :: "string list"
  associatedCompanies :: "string list"
  customProperties :: "string \<rightharpoonup> prop_value"

section \<open>The transform from raw to normalized deals (hubspotTransforms.ts)\<close>

datatype error = TypeError string

text \<open>
  The local function \<open>parseDate\<close>. Its \<open>catch\<close> branch is never taken, since
  \<open>new Date(dateStr)\<close> does not throw; \<open>n\<close> tells which reading of the clock
  \<open>new Date()\<close> gets.
\<close>

definition parseDate :: "runtime \<Rightarrow> nat \<Rightarrow> string option \<Rightarrow> Date" where
  "parseDate rt n dateStr =
     (case dateStr of
        None \<Rightarrow> ValidDate (clock rt n)
      | Some s \<Rightarrow> if s = [] then ValidDate (clock rt n) else newDate rt s)"

text \<open>\<open>d || e\<close> where \<open>d\<close> is a \<open>Date\<close> object.\<close>

definition orDate :: "Date \<Rightarrow> Date \<Rightarrow> Date" where
  "orDate d e = (if truthy_date d then d else e)"

definition standardProperties :: "string set" where
  "standardProperties =
     {''dealname'', ''amount'', ''dealstage'', ''pipeline'', ''dealtype'', ''closedate'',
      ''createdate'', ''hs_lastmodifieddate'', ''hubspot_owner_id'',
      ''amount_in_home_currency'', ''hs_deal_stage_probability'', ''dealstage_label'',
      ''pipeline_label'', ''deal_currency_code'', ''hs_forecast_amount'',
      ''hs_projected_amount'', ''num_associated_contacts'', ''num_contacted_notes'',
      ''days_to_close''}"

text \<open>The \<open>forEach\<close> over \<open>Object.entries(props)\<close> that fills \<open>customProperties\<close>.\<close>

fun customLoop ::
  "HubSpotDealProperties \<Rightarrow> (string \<rightharpoonup> prop_value) \<Rightarrow> (string \<rightharpoonup> prop_value)" where
  "customLoop [] cp = cp"
| "customLoop ((key, v) # es) cp =
     customLoop es
       (if key \<notin> standardProperties \<and> v \<noteq> Undefined \<and> v \<noteq> Null then cp(key \<mapsto> v) else cp)"

text \<open>
  \<open>Math.ceil(Math.abs(closeDate.getTime() - createdAt.getTime()) / (1000 * 60 * 60 * 24))\<close>:
  \<open>NaN\<close> as soon as one of the two dates is invalid.
\<close>

definition daysBetween :: "Date \<Rightarrow> Date \<Rightarrow> jsnum" where
  "daysBetween c k =
     (case (getTime c, getTime k) of
        (Some tc, Some tk) \<Rightarrow>
          Num (rat_of_int \<lceil>rat_of_int \<bar>tc - tk\<bar> / (1000 * 60 * 60 * 24)\<rceil>)
      | _ \<Rightarrow> NaN)"

text \<open>
  The transform registered on the raw stream. Reading a property of a missing
  \<open>properties\<close> or \<open>associations\<close> object throws a \<open>TypeError\<close>; nothing else in the
  body throws. The final \<open>console.log\<close> does not change the result.
\<close>

definition normalizeDeal :: "runtime \<Rightarrow> HubSpotDealRaw \<Rightarrow> error + HubSpotDeal" where
  "normalizeDeal rt rawDeal =
     (case raw_properties rawDeal of
        None \<Rightarrow> Inl (TypeError ''properties'')
      | Some props \<Rightarrow>
         (let dealName' = orStr (getProp props ''dealname'') ''Untitled Deal'';
              amount' = orNum (parseFloat (orStr (getProp props ''amount'') ''0'')) (Num 0);
              currency' = orStr (getProp props ''deal_currency_code'') ''USD'';
              stage' = orStr (getProp props ''dealstage'') ''unknown'';
              stageLabel' = orStr (getProp props ''dealstage_label'') stage';
              pipeline' = orStr (getProp props ''pipeline'') ''default'';
              pipelineLabel' = orStr (getProp props ''pipeline_label'') pipeline';
              createdAt' =
                orDate (parseDate rt 0 (orUndefined (getProp props ''createdate'')))
                  (newDate rt (raw_createdAt rawDeal));
              lastModifiedAt' =
                orDate (parseDate rt 1 (orUndefined (getProp props ''hs_lastmodifieddate'')))
                  (newDate rt (raw_updatedAt rawDeal));
              closeDate' =
                (if truthy (getProp props ''closedate'')
                 then Some (parseDate rt 2 (orUndefined (getProp props ''closedate'')))
                 else None);
              ownerId' = getProp props ''hubspot_owner_id'';
              stageProbability' =
                orNum (parseFloat (orStr (getProp props ''hs_deal_stage_probability'') ''0''))
                  (Num 0);
              forecastAmount' =
                orNum
                  (parseFloat
                     (orStr
                        (orVal (getProp props ''hs_forecast_amount'') (getProp props ''amount''))
                        ''0''))
                  (Num 0);
              projectedAmount' =
                orNum
                  (parseFloat
                     (orStr
                        (orVal (getProp props ''hs_projected_amount'') (getProp props ''amount''))
                        ''0''))
                  (Num 0);
              isWon' =
                (includes_str (toLowerCase stage') ''won''
                 \<or> includes_str (toLowerCase stage') ''closed'');
              isClosed' =
                (isWon' \<or> includes_str (toLowerCase stage') ''lost''
                 \<or> includes_str (toLowerCase stage') ''closed'');
              daysToClose' =
                (case closeDate' of
                   Some c \<Rightarrow> if isClosed' then Some (daysBetween c createdAt') else None
                 | None \<Rightarrow> None)
          in case raw_associations rawDeal of
               None \<Rightarrow> Inl (TypeError ''associations'')
             | Some assoc \<Rightarrow>
                (let associatedContacts' =
                       (case contacts assoc of Some cs \<Rightarrow> cs | None \<Rightarrow> []);
                     associatedCompanies' =
                       (case companies assoc of Some cs \<Rightarrow> cs | None \<Rightarrow> []);
                     contactCount' =
                       orNum
                         (parseInt (orStr (getProp props ''num_associated_contacts'') ''0''))
                         (Num (rat_of_nat (length associatedContacts')));
                     noteCount' =
                       orNum (parseInt (orStr (getProp props ''num_contacted_notes'') ''0''))
                         (Num 0);
                     customProperties' = customLoop props Map.empty
                 in Inr \<lparr>deal_id = raw_id rawDeal,
                         dealName = dealName',
                         amount = amount',
                         currency = currency',
                         stage = stage',
                         stageLabel = stageLabel',
                         pipeline = pipeline',
                         pipelineLabel = pipelineLabel',
                         dealType = orUndefined (getProp props ''dealtype''),
                         closeDate = closeDate',
                         createdAt = createdAt',
                         lastModifiedAt = lastModifiedAt',
                         ownerId = orUndefined ownerId',
                         stageProbability = stageProbability',
                         forecastAmount = forecastAmount',
                         projectedAmount = projectedAmount',
                         daysToClose = daysToClose',
                         isWon = isWon',
                         isClosed = isClosed',
                         isArchived = raw_archived rawDeal,
                         contactCount = contactCount',
                         noteCount = noteCount',
                         associatedContacts = associatedContacts',
                         associatedCompanies = associatedCompanies',
                         customProperties = customProperties'\<rparr>)))"


section \<open>The sync driver (hubspotSync.ts)\<close>

text \<open>
  Modelled from the spec: the type of the deals that the connector's stream yields
  (the connector package is not among these sources). As in the spec's RawRecord and
  in \<open>HubSpotDealProperties\<close>, a property value is a string, null or undefined. The
  driver reads \<open>id\<close>, \<open>properties\<close> (replaced by \<open>{}\<close> when falsy), \<open>createdAt\<close>,
  \<open>updatedAt\<close> and \<open>archived\<close> (replaced by \<open>false\<close> when falsy).
\<close>

record ConnectorDeal =
  src_id :: string
  src_properties :: "HubSpotDealProperties option"
  src_createdAt :: string
  src_updatedAt :: string
  src_archived :: "bool option"

record IngestionAssociations =
  ing_contacts :: "string list"
  ing_companies :: "string list"

text \<open>\<open>HubSpotDealRawIngestion\<close>, the body posted to the ingestion endpoint.\<close>

record HubSpotDealRawIngestion =
  ing_id :: string
  ing_properties :: "string \<rightharpoonup> string"
  ing_createdAt :: string
  ing_updatedAt :: string
  ing_archived :: bool
  ing_associations :: IngestionAssociations

text \<open>\<open>String(value)\<close>.\<close>

definition String_of :: "prop_value \<Rightarrow> string" where
  "String_of v = (case v of Str s \<Rightarrow> s | Null \<Rightarrow> ''null'' | Undefined \<Rightarrow> ''undefined'')"

text \<open>The \<open>for\<close> loop over \<open>Object.entries(deal.properties || {})\<close>.\<close>

fun cleanLoop ::
  "HubSpotDealProperties \<Rightarrow> (string \<rightharpoonup> string) \<Rightarrow> (string \<rightharpoonup> string)" where
  "cleanLoop [] cleanProperties = cleanProperties"
| "cleanLoop ((key, v) # es) cleanProperties =
     cleanLoop es
       (if v \<noteq> Null \<and> v \<noteq> Undefined \<and> v \<noteq> Str []
        then cleanProperties(key \<mapsto> String_of v) else cleanProperties)"

definition dealData :: "ConnectorDeal \<Rightarrow> HubSpotDealRawIngestion" where
  "dealData deal =
     \<lparr>ing_id = src_id deal,
      ing_properties =
        cleanLoop (case src_properties deal of Some props \<Rightarrow> props | None \<Rightarrow> []) Map.empty,
      ing_createdAt = src_createdAt deal,
      ing_updatedAt = src_updatedAt deal,
      ing_archived = (case src_archived deal of Some b \<Rightarrow> b | None \<Rightarrow> False),
      ing_associations = \<lparr>ing_contacts = [], ing_companies = []\<rparr>\<rparr>"

text \<open>
  What \<open>await fetch(...)\<close> gives: a rejection (the request could not be made), or a
  response with its \<open>ok\<close> flag, its status and its text.
\<close>

datatype fetch_result = Rejected string | Response bool nat string

text \<open>
  Modelled from the spec: the lazy, finite sequence that \<open>connector.streamDeals\<close>
  returns (the connector package is not among these sources). It yields deals one at
  a time and either ends or throws.
\<close>

datatype deal_stream = StreamEnd | StreamThrows string | Yield ConnectorDeal deal_stream

text \<open>
  The surroundings of one run: the environment variable, the error that
  \<open>initialize\<close> or \<open>connect\<close> throws (if any), the stream, the answer of the ingestion
  endpoint to the \<open>n\<close>-th request, and the error that \<open>disconnect\<close> throws (if any).
\<close>

record sync_env =
  HUBSPOT_TOKEN :: "string option"
  connect :: "string option"
  streamDeals :: deal_stream
  fetch :: "nat \<Rightarrow> HubSpotDealRawIngestion \<Rightarrow> fetch_result"
  disconnect :: "string option"

text \<open>The three counters of the loop, and the bodies posted so far.\<close>

record sync_state =
  dealCount :: nat
  successCount :: nat
  errorCount :: nat
  sent :: "HubSpotDealRawIngestion list"

text \<open>
  One turn of the \<open>for await\<close> loop: count the deal, build the body, post it; a
  rejection or a response that is not \<open>ok\<close> is thrown inside the \<open>try\<close> and caught
  by its \<open>catch\<close>, which counts an error and continues. The progress line logged
  every 50 deals does not change the state.
\<close>

definition loopBody :: "sync_env \<Rightarrow> ConnectorDeal \<Rightarrow> sync_state \<Rightarrow> sync_state" where
  "loopBody env deal st =
     (let st1 = st\<lparr>dealCount := dealCount st + 1\<rparr>;
          body = dealData deal;
          st2 = st1\<lparr>sent := sent st1 @ [body]\<rparr>
      in case fetch env (dealCount st1) body of
           Rejected e \<Rightarrow> st2\<lparr>errorCount := errorCount st2 + 1\<rparr>
         | Response ok status txt \<Rightarrow>
             if \<not> ok then st2\<lparr>errorCount := errorCount st2 + 1\<rparr>
             else st2\<lparr>successCount := successCount st2 + 1\<rparr>)"

text \<open>The loop: the error the stream threw, if any, and the state it was left in.\<close>

fun streamLoop :: "sync_env \<Rightarrow> deal_stream \<Rightarrow> sync_state \<Rightarrow> string option \<times> sync_state" where
  "streamLoop env StreamEnd st = (None, st)"
| "streamLoop env (StreamThrows e) st = (Some e, st)"
| "streamLoop env (Yield deal rest) st = streamLoop env rest (loopBody env deal st)"

text \<open>
  What a run leaves behind: the error it throws (if any), the bodies it posted, and
  the counts of the \<open>Final stats\<close> line (total, added, errors) when that line is logged.
\<close>

record sync_run =
  thrown :: "string option"
  posted :: "HubSpotDealRawIngestion list"
  finalStats :: "(nat \<times> nat \<times> nat) option"

definition syncHubSpotDeals :: "sync_env \<Rightarrow> sync_run" where
  "syncHubSpotDeals env =
     (if orUndefined (case HUBSPOT_TOKEN env of Some t \<Rightarrow> Str t | None \<Rightarrow> Undefined) = None
      then \<lparr>thrown = Some ''HUBSPOT_TOKEN environment variable is required'',
            posted = [], finalStats = None\<rparr>
      else
        (case connect env of
           Some e \<Rightarrow> \<lparr>thrown = Some e, posted = [], finalStats = None\<rparr>
         | None \<Rightarrow>
            (case streamLoop env (streamDeals env)
                    \<lparr>dealCount = 0, successCount = 0, errorCount = 0, sent = []\<rparr> of
               (Some e, st) \<Rightarrow> \<lparr>thrown = Some e, posted = sent st, finalStats = None\<rparr>
             | (None, st) \<Rightarrow>
                (case disconnect env of
                   Some e \<Rightarrow> \<lparr>thrown = Some e, posted = sent st, finalStats = None\<rparr>
                 | None \<Rightarrow>
                     \<lparr>thrown = None, posted = sent st,
                      finalStats = Some (dealCount st, successCount st, errorCount st)\<rparr>))))"

text \<open>The deals a stream yields, in order.\<close>

fun yielded :: "deal_stream \<Rightarrow> ConnectorDeal list" where
  "yielded StreamEnd = []"
| "yielded (StreamThrows e) = []"
| "yielded (Yield deal rest) = deal # yielded rest"

text \<open>The stream that yields the given deals and then ends.\<close>

definition streamOf :: "ConnectorDeal list \<Rightarrow> deal_stream" where
  "streamOf ds = foldr Yield ds StreamEnd"

text \<open>Forwarding the \<open>n\<close>-th deal fails: the request is rejected or the response is not ok.\<close>

definition forwardingFails :: "sync_env \<Rightarrow> nat \<Rightarrow> ConnectorDeal \<Rightarrow> bool" where
  "forwardingFails env n deal =
     (case fetch env n (dealData deal) of Rejected e \<Rightarrow> True | Response ok status txt \<Rightarrow> \<not> ok)"

text \<open>The error with which a stream stops, if it throws.\<close>

fun streamError :: "deal_stream \<Rightarrow> string option" where
  "streamError StreamEnd = None"
| "streamError (StreamThrows e) = Some e"
| "streamError (Yield deal rest) = streamError rest"

text \<open>The environment variable is set to a non-empty string.\<close>

definition tokenSet :: "sync_env \<Rightarrow> bool" where
  "tokenSet env = (case HUBSPOT_TOKEN env of Some t \<Rightarrow> t \<noteq> [] | None \<Rightarrow> False)"

section \<open>Sample inputs\<close>

text \<open>A host that reads the two ISO timestamps used below; its clock starts at 2026-01-01.\<close>

definition sampleDateParse :: "string \<Rightarrow> int option" where
  "sampleDateParse s =
     (if s = ''2024-01-15T10:30:00.000Z'' then Some 1705314600000
      else if s = ''2024-03-01T00:00:00.000Z'' then Some 1709251200000
      else None)"

definition sampleClock :: "nat \<Rightarrow> int" where
  "sampleClock n = 1767225600000 + int n"

definition sampleRuntime :: runtime where
  "sampleRuntime = \<lparr>dateParse = sampleDateParse, clock = sampleClock\<rparr>"

text \<open>The same host one minute later.\<close>

definition laterClock :: "nat \<Rightarrow> int" where
  "laterClock n = 1767225660000 + int n"

definition laterRuntime :: runtime where
  "laterRuntime = \<lparr>dateParse = sampleDateParse, clock = laterClock\<rparr>"

definition noAssociations :: HubSpotDealAssociations where
  "noAssociations = \<lparr>contacts = Some [], companies = Some []\<rparr>"

definition rawWith :: "string option \<Rightarrow> HubSpotDealProperties \<Rightarrow> HubSpotDealRaw" where
  "rawWith i props =
     \<lparr>raw_id = i, raw_properties = Some props,
      raw_createdAt = ''2024-01-15T10:30:00.000Z'',
      raw_updatedAt = ''2024-03-01T00:00:00.000Z'',
      raw_archived = False, raw_associations = Some noAssociations\<rparr>"

text \<open>A well-formed deal in stage \<open>Closed Won\<close>, with all its dates.\<close>

definition wonProps :: HubSpotDealProperties where
  "wonProps =
     [(''dealname'', Str ''Big deal''), (''amount'', Str ''1500.50''),
      (''dealstage'', Str ''Closed Won''),
      (''createdate'', Str ''2024-01-15T10:30:00.000Z''),
      (''hs_lastmodifieddate'', Str ''2024-03-01T00:00:00.000Z''),
      (''closedate'', Str ''2024-03-01T00:00:00.000Z'')]"

definition wonDeal :: HubSpotDealRaw where
  "wonDeal = rawWith (Some ''1001'') wonProps"


text \<open>A deal that HubSpot sent without \<open>createdate\<close> and \<open>hs_lastmodifieddate\<close>.\<close>

definition undatedProps :: HubSpotDealProperties where
  "undatedProps = [(''dealname'', Str ''Undated''), (''dealstage'', Str ''qualified'')]"

definition undatedDeal :: HubSpotDealRaw where
  "undatedDeal = rawWith (Some ''1002'') undatedProps"

text \<open>A deal whose \<open>createdate\<close> is not a date.\<close>

definition baddateProps :: HubSpotDealProperties where
  "baddateProps = [(''dealname'', Str ''Bad date''), (''createdate'', Str ''yesterday'')]"

definition baddateDeal :: HubSpotDealRaw where
  "baddateDeal = rawWith (Some ''1003'') baddateProps"

text \<open>A deal in HubSpot's stage \<open>closedlost\<close>.\<close>

definition lostProps :: HubSpotDealProperties where
  "lostProps = [(''dealname'', Str ''Lost deal''), (''dealstage'', Str ''closedlost'')]"

definition lostDeal :: HubSpotDealRaw where
  "lostDeal = rawWith (Some ''1004'') lostProps"

text \<open>A deal without a usable \<open>amount\<close>.\<close>

definition noAmountProps :: HubSpotDealProperties where
  "noAmountProps = [(''dealname'', Str ''No amount''), (''amount'', Str ''n/a'')]"

definition noAmountDeal :: HubSpotDealRaw where
  "noAmountDeal = rawWith (Some ''1005'') noAmountProps"

text \<open>A deal with an \<open>amount\<close> and no \<open>hs_forecast_amount\<close>.\<close>

definition noForecastProps :: HubSpotDealProperties where
  "noForecastProps = [(''dealname'', Str ''No forecast''), (''amount'', Str ''100'')]"

definition noForecastDeal :: HubSpotDealRaw where
  "noForecastDeal = rawWith (Some ''1006'') noForecastProps"

text \<open>A deal with an \<open>amount\<close> and forecasts that are not numbers.\<close>

definition badForecastProps :: HubSpotDealProperties where
  "badForecastProps =
     [(''amount'', Str ''100''), (''hs_forecast_amount'', Str ''tbd''),
      (''hs_projected_amount'', Str ''tbd'')]"

definition badForecastDeal :: HubSpotDealRaw where
  "badForecastDeal = rawWith (Some ''1007'') badForecastProps"

text \<open>Three deals from the connector; the ingestion endpoint refuses the second request.\<close>

definition sparseProps :: HubSpotDealProperties where
  "sparseProps =
     [(''dealname'', Str ''Sparse''), (''amount'', Null), (''dealtype'', Str []),
      (''pipeline'', Undefined)]"

definition connectorDeal :: "string \<Rightarrow> ConnectorDeal" where
  "connectorDeal i =
     \<lparr>src_id = i, src_properties = Some sparseProps,
      src_createdAt = ''2024-01-15T10:30:00.000Z'',
      src_updatedAt = ''2024-03-01T00:00:00.000Z'', src_archived = None\<rparr>"

definition threeDeals :: "ConnectorDeal list" where
  "threeDeals = [connectorDeal ''1'', connectorDeal ''2'', connectorDeal ''3'']"

definition sampleFetch :: "nat \<Rightarrow> HubSpotDealRawIngestion \<Rightarrow> fetch_result" where
  "sampleFetch n body =
     (if n = 2 then Response False 500 ''Internal Server Error'' else Response True 200 [])"

definition sampleEnv :: sync_env where
  "sampleEnv =
     \<lparr>HUBSPOT_TOKEN = Some ''pat-na1-0000'', connect = None,
      streamDeals = streamOf threeDeals, fetch = sampleFetch, disconnect = None\<rparr>"


text \<open>The same run when \<open>disconnect\<close> throws after the stream has ended.\<close>

definition failingDisconnectEnv :: sync_env where
  "failingDisconnectEnv =
     \<lparr>HUBSPOT_TOKEN = Some ''pat-na1-0000'', connect = None,
      streamDeals = streamOf threeDeals, fetch = sampleFetch,
      disconnect = Some ''socket hang up''\<rparr>"

text \<open>A run whose stream throws after its second deal.\<close>

definition brokenStream :: deal_stream where
  "brokenStream =
     Yield (connectorDeal ''1'') (Yield (connectorDeal ''2'') (StreamThrows ''RemoteUnavailable''))"

definition brokenStreamEnv :: sync_env where
  "brokenStreamEnv =
     \<lparr>HUBSPOT_TOKEN = Some ''pat-na1-0000'', connect = None,
      streamDeals = brokenStream, fetch = sampleFetch, disconnect = None\<rparr>"

text \<open>A deal whose \<open>amount\<close> is written with a thousands separator.\<close>

definition commaAmountProps :: HubSpotDealProperties where
  "commaAmountProps = [(''dealname'', Str ''Comma''), (''amount'', Str ''1,500.50'')]"

definition commaAmountDeal :: HubSpotDealRaw where
  "commaAmountDeal = rawWith (Some ''1008'') commaAmountProps"

text \<open>A deal whose forecasts start with a number and go on with letters.\<close>

definition prefixForecastProps :: HubSpotDealProperties where
  "prefixForecastProps =
     [(''amount'', Str ''100''), (''hs_forecast_amount'', Str ''12abc''),
      (''hs_projected_amount'', Str ''12abc'')]"

definition prefixForecastDeal :: HubSpotDealRaw where
  "prefixForecastDeal = rawWith (Some ''1009'') prefixForecastProps"

text \<open>A deal that has no property at all.\<close>

definition bareDeal :: HubSpotDealRaw where
  "bareDeal = rawWith (Some ''1010'') []"

section \<open>Properties of the transform\<close>

subsection \<open>When it returns, and what each field is\<close>

lemma normalizeDeal_isl_iff:
  "isl (normalizeDeal rt r) \<longleftrightarrow> raw_properties r = None \<or> raw_associations r = None"
  by (cases "raw_properties r"; cases "raw_associations r")
    (simp_all add: normalizeDeal_def Let_def)

lemma normalizeDeal_Inr_properties:
  assumes "normalizeDeal rt r = Inr d"
  obtains props where "raw_properties r = Some props"
  using assms normalizeDeal_isl_iff[of rt r] by (cases "raw_properties r") auto

lemma normalizeDeal_deal_id: "normalizeDeal rt r = Inr d \<Longrightarrow> deal_id d = raw_id r"
  by (cases "raw_properties r"; cases "raw_associations r")
    (auto simp: normalizeDeal_def Let_def)

lemma normalizeDeal_isWon:
  "normalizeDeal rt r = Inr d \<Longrightarrow> raw_properties r = Some props \<Longrightarrow>
   isWon d =
     (includes_str (toLowerCase (orStr (getProp props ''dealstage'') ''unknown'')) ''won''
      \<or> includes_str (toLowerCase (orStr (getProp props ''dealstage'') ''unknown'')) ''closed'')"
  by (cases "raw_associations r") (auto simp: normalizeDeal_def Let_def)

lemma normalizeDeal_isClosed:
  "normalizeDeal rt r = Inr d \<Longrightarrow> raw_properties r = Some props \<Longrightarrow>
   isClosed d =
     (isWon d
      \<or> includes_str (toLowerCase (orStr (getProp props ''dealstage'') ''unknown'')) ''lost''
      \<or> includes_str (toLowerCase (orStr (getProp props ''dealstage'') ''unknown'')) ''closed'')"
  by (cases "raw_associations r") (auto simp: normalizeDeal_def Let_def)

lemma normalizeDeal_amount:
  "normalizeDeal rt r = Inr d \<Longrightarrow> raw_properties r = Some props \<Longrightarrow>
   amount d = orNum (parseFloat (orStr (getProp props ''amount'') ''0'')) (Num 0)"
  by (cases "raw_associations r") (auto simp: normalizeDeal_def Let_def)

lemma normalizeDeal_forecastAmount:
  "normalizeDeal rt r = Inr d \<Longrightarrow> raw_properties r = Some props \<Longrightarrow>
   forecastAmount d =
     orNum
       (parseFloat
          (orStr (orVal (getProp props ''hs_forecast_amount'') (getProp props ''amount'')) ''0''))
       (Num 0)"
  by (cases "raw_associations r") (auto simp: normalizeDeal_def Let_def)

lemma normalizeDeal_projectedAmount:
  "normalizeDeal rt r = Inr d \<Longrightarrow> raw_properties r = Some props \<Longrightarrow>
   projectedAmount d =
     orNum
       (parseFloat
          (orStr (orVal (getProp props ''hs_projected_amount'') (getProp props ''amount'')) ''0''))
       (Num 0)"
  by (cases "raw_associations r") (auto simp: normalizeDeal_def Let_def)

text \<open>
  The right operand of \<open>||\<close> in the two date lines is never taken: \<open>parseDate\<close> returns
  an object.
\<close>

lemma normalizeDeal_createdAt:
  "normalizeDeal rt r = Inr d \<Longrightarrow> raw_properties r = Some props \<Longrightarrow>
   createdAt d = parseDate rt 0 (orUndefined (getProp props ''createdate''))"
  by (cases "raw_associations r")
    (auto simp: normalizeDeal_def Let_def orDate_def truthy_date_def)

lemma normalizeDeal_lastModifiedAt:
  "normalizeDeal rt r = Inr d \<Longrightarrow> raw_properties r = Some props \<Longrightarrow>
   lastModifiedAt d = parseDate rt 1 (orUndefined (getProp props ''hs_lastmodifieddate''))"
  by (cases "raw_associations r")
    (auto simp: normalizeDeal_def Let_def orDate_def truthy_date_def)

lemma includes_str_nonempty: "includes_str s t \<Longrightarrow> t \<noteq> [] \<Longrightarrow> s \<noteq> []"
  by (cases s) auto

subsection \<open>The sample records\<close>

lemma sample_returns:
  "normalizeDeal rt (rawWith i props) = Inr (projr (normalizeDeal rt (rawWith i props)))"
proof -
  have "\<not> isl (normalizeDeal rt (rawWith i props))"
    by (simp add: normalizeDeal_isl_iff rawWith_def)
  then show ?thesis by simp
qed

lemma sample_properties: "raw_properties (rawWith i props) = Some props"
  by (simp add: rawWith_def)

lemma lower_closedlost: "toLowerCase ''closedlost'' = ''closedlost''"
  by code_simp

lemma lower_closed_won: "toLowerCase ''Closed Won'' = ''closed won''"
  by code_simp

lemma parseFloat_0: "parseFloat ''0'' = Num 0"
  by code_simp

lemma parseFloat_100: "parseFloat ''100'' = Num 100"
  by code_simp

lemma parseFloat_na: "parseFloat ''n/a'' = NaN"
  by code_simp

lemma parseFloat_tbd: "parseFloat ''tbd'' = NaN"
  by code_simp

subsection \<open>Records without an id, and missing properties\<close>






subsection \<open>Dates\<close>

text \<open>
  What the two date fields are when the property is missing, null or empty (the
  reading of the clock) and when it is a string that the host cannot read as a date
  (an invalid date). The timestamps of the raw record are not used.
\<close>

lemma createdAt_without_createdate:
  assumes "normalizeDeal rt r = Inr d" "raw_properties r = Some props"
    "\<not> truthy (getProp props ''createdate'')"
  shows "createdAt d = ValidDate (clock rt 0)"
  unfolding normalizeDeal_createdAt[OF assms(1,2)] using assms(3)
  by (cases "getProp props ''createdate''") (auto simp: truthy_def orUndefined_def parseDate_def)

lemma lastModifiedAt_without_hs_lastmodifieddate:
  assumes "normalizeDeal rt r = Inr d" "raw_properties r = Some props"
    "\<not> truthy (getProp props ''hs_lastmodifieddate'')"
  shows "lastModifiedAt d = ValidDate (clock rt 1)"
  unfolding normalizeDeal_lastModifiedAt[OF assms(1,2)] using assms(3)
  by (cases "getProp props ''hs_lastmodifieddate''")
    (auto simp: truthy_def orUndefined_def parseDate_def)

lemma createdAt_unreadable_createdate:
  assumes "normalizeDeal rt r = Inr d" "raw_properties r = Some props"
    "getProp props ''createdate'' = Str s" "s \<noteq> []" "dateParse rt s = None"
  shows "createdAt d = InvalidDate"
  unfolding normalizeDeal_createdAt[OF assms(1,2)] using assms(3-5)
  by (simp add: orUndefined_def parseDate_def newDate_def)

text \<open>
  C2 asks that \<open>createdAt\<close> and \<open>lastModifiedAt\<close> equal the raw record's own
  \<open>createdAt\<close> and \<open>updatedAt\<close> when the date property is absent or fails to parse.
  The code does not do that. On \<open>undatedDeal\<close>, which has neither \<open>createdate\<close> nor
  \<open>hs_lastmodifieddate\<close>, both fields are readings of the clock (in 2026) although
  the record's own timestamps read as dates in 2024; on \<open>baddateDeal\<close>, whose
  \<open>createdate\<close> is not a date, \<open>createdAt\<close> is an invalid date.
\<close>

theorem dates_ignore_record_timestamps:
  "getProp undatedProps ''createdate'' = Undefined
   \<and> createdAt (projr (normalizeDeal sampleRuntime undatedDeal)) = ValidDate 1767225600000
   \<and> newDate sampleRuntime (raw_createdAt undatedDeal) = ValidDate 1705314600000
   \<and> getProp undatedProps ''hs_lastmodifieddate'' = Undefined
   \<and> lastModifiedAt (projr (normalizeDeal sampleRuntime undatedDeal)) = ValidDate 1767225600001
   \<and> newDate sampleRuntime (raw_updatedAt undatedDeal) = ValidDate 1709251200000
   \<and> getProp baddateProps ''createdate'' = Str ''yesterday''
   \<and> dateParse sampleRuntime ''yesterday'' = None
   \<and> createdAt (projr (normalizeDeal sampleRuntime baddateDeal)) = InvalidDate
   \<and> newDate sampleRuntime (raw_createdAt baddateDeal) = ValidDate 1705314600000"
  unfolding undatedDeal_def baddateDeal_def
    normalizeDeal_createdAt[OF sample_returns sample_properties]
    normalizeDeal_lastModifiedAt[OF sample_returns sample_properties]
  by (simp add: getProp_def undatedProps_def baddateProps_def orUndefined_def parseDate_def
      newDate_def sampleRuntime_def sampleClock_def sampleDateParse_def rawWith_def)

text \<open>
  The clock is read only through \<open>parseDate\<close>: when \<open>createdate\<close> and
  \<open>hs_lastmodifieddate\<close> are both non-empty strings, two hosts that read dates alike
  give the same result whatever their clocks show.
\<close>

lemma parseDate_truthy:
  "truthy v \<Longrightarrow> dateParse rt = dateParse rt' \<Longrightarrow>
   parseDate rt n (orUndefined v) = parseDate rt' m (orUndefined v)"
  by (cases v) (auto simp: truthy_def orUndefined_def parseDate_def newDate_def)

lemma normalizeDeal_clock_free:
  assumes "raw_properties r = Some props" "truthy (getProp props ''createdate'')"
    "truthy (getProp props ''hs_lastmodifieddate'')" "dateParse rt = dateParse rt'"
  shows "normalizeDeal rt r = normalizeDeal rt' r"
proof -
  note pd = parseDate_truthy[OF _ assms(4)]
  have a: "parseDate rt 0 (orUndefined (getProp props ''createdate''))
           = parseDate rt' 0 (orUndefined (getProp props ''createdate''))"
    using assms(2) by (rule pd)
  have b: "parseDate rt (Suc 0) (orUndefined (getProp props ''hs_lastmodifieddate''))
           = parseDate rt' (Suc 0) (orUndefined (getProp props ''hs_lastmodifieddate''))"
    using assms(3) by (rule pd)
  have c: "truthy (getProp props ''closedate'') \<Longrightarrow>
           parseDate rt 2 (orUndefined (getProp props ''closedate''))
           = parseDate rt' 2 (orUndefined (getProp props ''closedate''))"
    by (rule pd)
  show ?thesis
    by (cases "raw_associations r")
      (auto simp: normalizeDeal_def Let_def assms(1) a b c orDate_def truthy_date_def)
qed

text \<open>
  C3 asks that the same raw record always give the same normalized deal, with no
  dependence on the wall clock. The code depends on it: the same host one minute
  later (same reading of dates, other clock) turns \<open>undatedDeal\<close> into a different
  normalized deal.
\<close>

theorem normalizeDeal_depends_on_clock:
  "dateParse laterRuntime = dateParse sampleRuntime
   \<and> normalizeDeal sampleRuntime undatedDeal \<noteq> normalizeDeal laterRuntime undatedDeal"
proof -
  have a: "createdAt (projr (normalizeDeal sampleRuntime undatedDeal)) = ValidDate 1767225600000"
    unfolding undatedDeal_def normalizeDeal_createdAt[OF sample_returns sample_properties]
    by (simp add: getProp_def undatedProps_def orUndefined_def parseDate_def
        sampleRuntime_def sampleClock_def)
  have b: "createdAt (projr (normalizeDeal laterRuntime undatedDeal)) = ValidDate 1767225660000"
    unfolding undatedDeal_def normalizeDeal_createdAt[OF sample_returns sample_properties]
    by (simp add: getProp_def undatedProps_def orUndefined_def parseDate_def
        laterRuntime_def laterClock_def)
  have "normalizeDeal sampleRuntime undatedDeal \<noteq> normalizeDeal laterRuntime undatedDeal"
  proof
    assume "normalizeDeal sampleRuntime undatedDeal = normalizeDeal laterRuntime undatedDeal"
    with a b show False by simp
  qed
  then show ?thesis by (simp add: sampleRuntime_def laterRuntime_def)
qed


subsection \<open>The status flags\<close>

text \<open>
  C4 asks that \<open>isWon\<close> be true exactly when the lower-cased stage contains \<open>won\<close>.
  The code also sets it when the stage contains \<open>closed\<close>: HubSpot's stage
  \<open>closedlost\<close> does not contain \<open>won\<close>, and the deal is marked as won.
\<close>

theorem isWon_on_closedlost:
  "getProp lostProps ''dealstage'' = Str ''closedlost''
   \<and> \<not> includes_str (toLowerCase ''closedlost'') ''won''
   \<and> isWon (projr (normalizeDeal sampleRuntime lostDeal))"
  unfolding lostDeal_def normalizeDeal_isWon[OF sample_returns sample_properties]
  by (simp add: getProp_def lostProps_def orStr_def lower_closedlost)

text \<open>
  C5: for every raw record whose \<open>dealstage\<close> property contains \<open>won\<close>, whatever the
  case of its letters, the normalized deal has \<open>isWon\<close> and \<open>isClosed\<close> both true.
\<close>

theorem won_stage_isWon_isClosed:
  assumes "normalizeDeal rt r = Inr d" "raw_properties r = Some props"
    "getProp props ''dealstage'' = Str s" "includes_str (toLowerCase s) ''won''"
  shows "isWon d \<and> isClosed d"
proof -
  have "s \<noteq> []"
    using includes_str_nonempty[OF assms(4)] by (auto simp: toLowerCase_def)
  then have "orStr (getProp props ''dealstage'') ''unknown'' = s"
    by (simp add: assms(3) orStr_def)
  then have "isWon d"
    using normalizeDeal_isWon[OF assms(1,2)] assms(4) by simp
  then show ?thesis
    using normalizeDeal_isClosed[OF assms(1,2)] by simp
qed

theorem won_stage_isWon_isClosed_witness:
  "raw_properties wonDeal = Some wonProps
   \<and> getProp wonProps ''dealstage'' = Str ''Closed Won''
   \<and> includes_str (toLowerCase ''Closed Won'') ''won''
   \<and> isWon (projr (normalizeDeal sampleRuntime wonDeal))
   \<and> isClosed (projr (normalizeDeal sampleRuntime wonDeal))"
proof -
  have n: "normalizeDeal sampleRuntime wonDeal
           = Inr (projr (normalizeDeal sampleRuntime wonDeal))"
    unfolding wonDeal_def by (rule sample_returns)
  have p: "raw_properties wonDeal = Some wonProps"
    by (simp add: wonDeal_def sample_properties)
  have g: "getProp wonProps ''dealstage'' = Str ''Closed Won''"
    by (simp add: getProp_def wonProps_def)
  have i: "includes_str (toLowerCase ''Closed Won'') ''won''"
    by (simp add: lower_closed_won)
  from won_stage_isWon_isClosed[OF n p g i] p g i show ?thesis by simp
qed

text \<open>
  C10: every normalized deal that the transform returns satisfies \<open>isWon\<close> implies
  \<open>isClosed\<close>; no deal is marked won and not closed.
\<close>

theorem isWon_implies_isClosed:
  assumes "normalizeDeal rt r = Inr d" "isWon d"
  shows "isClosed d"
proof -
  from assms(1) obtain props where "raw_properties r = Some props"
    by (rule normalizeDeal_Inr_properties)
  from normalizeDeal_isClosed[OF assms(1) this] assms(2) show ?thesis by simp
qed

theorem isWon_implies_isClosed_witness:
  "\<not> isl (normalizeDeal sampleRuntime wonDeal)
   \<and> isWon (projr (normalizeDeal sampleRuntime wonDeal))
   \<and> isClosed (projr (normalizeDeal sampleRuntime wonDeal))"
proof -
  have n: "normalizeDeal sampleRuntime wonDeal
           = Inr (projr (normalizeDeal sampleRuntime wonDeal))"
    unfolding wonDeal_def by (rule sample_returns)
  have l: "\<not> isl (normalizeDeal sampleRuntime wonDeal)"
    by (simp add: normalizeDeal_isl_iff wonDeal_def rawWith_def)
  have w: "isWon (projr (normalizeDeal sampleRuntime wonDeal))"
    unfolding wonDeal_def normalizeDeal_isWon[OF sample_returns sample_properties]
    by (simp add: getProp_def wonProps_def orStr_def lower_closed_won)
  from isWon_implies_isClosed[OF n w] l w show ?thesis by simp
qed

subsection \<open>Numbers\<close>

text \<open>
  A numeric string is read by \<open>parseFloat\<close>: the strings on which \<open>parseFloat\<close> gives
  \<open>NaN\<close> are all non-numeric. The converse fails, since \<open>parseFloat\<close> reads the number
  at the start of a string and ignores what follows it.
\<close>

lemma ws_not_digit: "isWhiteSpace c \<Longrightarrow> \<not> isDigit c"
  by (auto simp: isWhiteSpace_def isDigit_def)

lemma ws_not_dot: "isWhiteSpace c \<Longrightarrow> c \<noteq> CHR ''.''"
  by (auto simp: isWhiteSpace_def)

lemma takeWhile_digits_ws:
  "list_all isWhiteSpace w \<Longrightarrow> takeWhile isDigit (xs @ w) = takeWhile isDigit xs"
proof (induction xs)
  case Nil
  then show ?case by (cases w) (auto simp: ws_not_digit)
next
  case (Cons x xs)
  then show ?case by simp
qed

lemma dropWhile_digits_ws:
  "list_all isWhiteSpace w \<Longrightarrow> dropWhile isDigit (xs @ w) = dropWhile isDigit xs @ w"
proof (induction xs)
  case Nil
  then show ?case by (cases w) (auto simp: ws_not_digit)
next
  case (Cons x xs)
  then show ?case by simp
qed

lemma trim_split:
  "\<exists>w. dropWhile isWhiteSpace s = trim s @ w \<and> list_all isWhiteSpace w"
proof -
  let ?t = "dropWhile isWhiteSpace s"
  have "rev (rev ?t) = rev (takeWhile isWhiteSpace (rev ?t) @ dropWhile isWhiteSpace (rev ?t))"
    by (simp only: takeWhile_dropWhile_id)
  then have "?t = trim s @ rev (takeWhile isWhiteSpace (rev ?t))"
    by (simp only: rev_rev_ident rev_append trim_def)
  moreover have "list_all isWhiteSpace (rev (takeWhile isWhiteSpace (rev ?t)))"
    by (simp add: list_all_iff) (meson set_takeWhileD)
  ultimately show ?thesis by blast
qed

lemma readSign_append:
  "b \<noteq> [] \<Longrightarrow> readSign (b @ w) = (fst (readSign b), snd (readSign b) @ w)"
  by (cases b) auto

lemma numericString_parseFloat:
  assumes "numericString s"
  shows "parseFloat s \<noteq> NaN"
proof -
  obtain w where t: "dropWhile isWhiteSpace s = trim s @ w" and w: "list_all isWhiteSpace w"
    using trim_split by blast
  define body where "body = snd (readSign (trim s))"
  define ip where "ip = takeWhile isDigit body"
  define r where "r = dropWhile isDigit body"
  define hasDot where "hasDot = (r \<noteq> [] \<and> hd r = CHR ''.'')"
  define fp where "fp = (if hasDot then takeWhile isDigit (tl r) else [])"
  have ne: "trim s \<noteq> []"
    using assms by (auto simp: numericString_def Let_def)
  have rs: "readSign (dropWhile isWhiteSpace s) = (fst (readSign (trim s)), body @ w)"
    by (simp add: t readSign_append[OF ne] body_def)
  have eq_ip: "takeWhile isDigit (body @ w) = ip"
    by (simp add: ip_def takeWhile_digits_ws[OF w])
  have eq_r: "dropWhile isDigit (body @ w) = r @ w"
    by (simp add: r_def dropWhile_digits_ws[OF w])
  have eq_hd: "(r @ w \<noteq> [] \<and> hd (r @ w) = CHR ''.'') = hasDot"
  proof (cases r)
    case Nil
    have "w \<noteq> [] \<Longrightarrow> hd w \<noteq> CHR ''.''"
      using w by (cases w) (auto simp: ws_not_dot)
    then show ?thesis by (auto simp: hasDot_def Nil)
  next
    case (Cons a as)
    then show ?thesis by (simp add: hasDot_def)
  qed
  have eq_fp: "(if hasDot then takeWhile isDigit (tl (r @ w)) else []) = fp"
  proof (cases hasDot)
    case True
    then have "r \<noteq> []" by (simp add: hasDot_def)
    then have "tl (r @ w) = tl r @ w" by simp
    then show ?thesis by (simp add: fp_def True takeWhile_digits_ws[OF w])
  next
    case False
    then show ?thesis by (simp add: fp_def)
  qed
  have nan: "ip = [] \<and> fp = []" if "parseFloat s = NaN"
  proof -
    from that have "(if take 8 (body @ w) = ''Infinity'' then False
                     else ip = [] \<and> fp = [])"
      unfolding parseFloat_def rs Let_def prod.case eq_ip eq_r eq_hd eq_fp
      by (simp split: if_splits)
    then show ?thesis by (simp split: if_splits)
  qed
  show ?thesis
  proof (cases "body = ''Infinity''")
    case True
    then show ?thesis by (simp add: parseFloat_def rs)
  next
    case False
    with assms have "\<not> (ip = [] \<and> fp = [])"
      unfolding numericString_def Let_def ip_def fp_def hasDot_def r_def body_def
      by (simp only: if_False) blast
    with nan show ?thesis by blast
  qed
qed

lemma orNum_zero: "orNum x (Num 0) = (if x = NaN then Num 0 else x)"
  by (simp add: orNum_def truthy_num_def)

lemma parseFloat_empty: "parseFloat [] = NaN"
  by code_simp

lemma parse_or_zero:
  "orNum (parseFloat (orStr (Str s) ''0'')) (Num 0)
   = (if parseFloat s = NaN then Num 0 else parseFloat s)"
  by (cases "s = []") (simp_all add: orStr_def parseFloat_0 parseFloat_empty orNum_zero)

lemma parseFloat_comma: "parseFloat ''1,500.50'' = Num 1"
  by code_simp

lemma parseFloat_12abc: "parseFloat ''12abc'' = Num 12"
  by code_simp

lemma not_numeric_comma: "\<not> numericString ''1,500.50''"
  by code_simp

lemma not_numeric_12abc: "\<not> numericString ''12abc''"
  by code_simp

lemma not_numeric_na: "\<not> numericString ''n/a''"
  by code_simp

lemma not_numeric_tbd: "\<not> numericString ''tbd''"
  by code_simp

text \<open>
  C6, as the specification states it, fails: \<open>1,500.50\<close> is not a number, and the
  \<open>amount\<close> of the normalized deal is 1, the number that starts the string, not 0.
\<close>

theorem nonnumeric_amount_not_zero:
  "getProp commaAmountProps ''amount'' = Str ''1,500.50''
   \<and> \<not> numericString ''1,500.50''
   \<and> amount (projr (normalizeDeal sampleRuntime commaAmountDeal)) = Num 1
   \<and> amount (projr (normalizeDeal sampleRuntime commaAmountDeal)) \<noteq> Num 0"
  unfolding commaAmountDeal_def normalizeDeal_amount[OF sample_returns sample_properties]
  by (simp add: getProp_def commaAmountProps_def orStr_def parseFloat_comma not_numeric_comma
      orNum_def truthy_num_def)

text \<open>
  C6, amended: for every raw record whose \<open>amount\<close> property is absent, null, empty,
  or a string that no number starts (\<open>parseFloat\<close> gives \<open>NaN\<close>; such a string is never
  numeric), the \<open>amount\<close> of the normalized deal is 0, and the transform does not
  throw because of it (it returns whenever the \<open>associations\<close> object is there). For
  every other string \<open>amount\<close> is the number that \<open>parseFloat\<close> reads at its start:
  the whole of a numeric string, and the leading number of a non-numeric string that
  starts with one.
\<close>

theorem amount_zero_or_numeric_prefix:
  assumes "raw_properties r = Some props"
  shows "(raw_associations r \<noteq> None \<longrightarrow> \<not> isl (normalizeDeal rt r))
         \<and> (\<forall>d. normalizeDeal rt r = Inr d \<longrightarrow>
               (\<not> truthy (getProp props ''amount'') \<longrightarrow> amount d = Num 0)
             \<and> (\<forall>s. getProp props ''amount'' = Str s \<and> parseFloat s = NaN
                    \<longrightarrow> \<not> numericString s \<and> amount d = Num 0)
             \<and> (\<forall>s. getProp props ''amount'' = Str s \<and> parseFloat s \<noteq> NaN
                    \<longrightarrow> amount d = parseFloat s))"
proof -
  have a: "amount d = Num 0"
    if "normalizeDeal rt r = Inr d" "\<not> truthy (getProp props ''amount'')" for d
    unfolding normalizeDeal_amount[OF that(1) assms] using that(2)
    by (cases "getProp props ''amount''") (auto simp: truthy_def orStr_def parseFloat_0 orNum_zero)
  have e: "parseFloat [] = NaN" by code_simp
  have b: "amount d = (if parseFloat s = NaN then Num 0 else parseFloat s)"
    if "normalizeDeal rt r = Inr d" "getProp props ''amount'' = Str s" for d s
    unfolding normalizeDeal_amount[OF that(1) assms]
    by (cases "s = []") (simp_all add: that(2) orStr_def parseFloat_0 orNum_zero e)
  show ?thesis
    using a b assms numericString_parseFloat normalizeDeal_isl_iff[of rt r] by auto
qed

theorem amount_zero_or_numeric_prefix_witness:
  "raw_properties noAmountDeal = Some noAmountProps
   \<and> getProp noAmountProps ''amount'' = Str ''n/a'' \<and> parseFloat ''n/a'' = NaN
   \<and> \<not> numericString ''n/a''
   \<and> raw_associations noAmountDeal = Some noAssociations
   \<and> \<not> isl (normalizeDeal sampleRuntime noAmountDeal)
   \<and> amount (projr (normalizeDeal sampleRuntime noAmountDeal)) = Num 0
   \<and> raw_properties bareDeal = Some [] \<and> \<not> truthy (getProp [] ''amount'')
   \<and> amount (projr (normalizeDeal sampleRuntime bareDeal)) = Num 0
   \<and> raw_properties commaAmountDeal = Some commaAmountProps
   \<and> getProp commaAmountProps ''amount'' = Str ''1,500.50'' \<and> parseFloat ''1,500.50'' = Num 1
   \<and> amount (projr (normalizeDeal sampleRuntime commaAmountDeal)) = Num 1"
proof -
  have n: "normalizeDeal sampleRuntime noAmountDeal
           = Inr (projr (normalizeDeal sampleRuntime noAmountDeal))"
    "normalizeDeal sampleRuntime bareDeal = Inr (projr (normalizeDeal sampleRuntime bareDeal))"
    "normalizeDeal sampleRuntime commaAmountDeal
           = Inr (projr (normalizeDeal sampleRuntime commaAmountDeal))"
    unfolding noAmountDeal_def bareDeal_def commaAmountDeal_def by (rule sample_returns)+
  have p: "raw_properties noAmountDeal = Some noAmountProps" "raw_properties bareDeal = Some []"
    "raw_properties commaAmountDeal = Some commaAmountProps"
    "raw_associations noAmountDeal = Some noAssociations"
    by (simp_all add: noAmountDeal_def bareDeal_def commaAmountDeal_def rawWith_def)
  have g: "getProp noAmountProps ''amount'' = Str ''n/a''" "\<not> truthy (getProp [] ''amount'')"
    "getProp commaAmountProps ''amount'' = Str ''1,500.50''"
    by (simp_all add: getProp_def noAmountProps_def commaAmountProps_def truthy_def)
  from amount_zero_or_numeric_prefix[OF p(1), of sampleRuntime]
    amount_zero_or_numeric_prefix[OF p(2), of sampleRuntime]
    amount_zero_or_numeric_prefix[OF p(3), of sampleRuntime]
    n p g parseFloat_na parseFloat_comma not_numeric_na
  show ?thesis by (simp add: normalizeDeal_isl_iff)
qed

text \<open>
  C7, as the specification states it, fails: with \<open>hs_forecast_amount\<close> and
  \<open>hs_projected_amount\<close> absent and \<open>amount\<close> equal to \<open>100\<close>, both fields are 100,
  not 0; and with both equal to \<open>12abc\<close>, which is not a number, both fields are 12,
  not 0.
\<close>

theorem forecast_not_zero:
  "getProp noForecastProps ''hs_forecast_amount'' = Undefined
   \<and> getProp noForecastProps ''hs_projected_amount'' = Undefined
   \<and> forecastAmount (projr (normalizeDeal sampleRuntime noForecastDeal)) = Num 100
   \<and> projectedAmount (projr (normalizeDeal sampleRuntime noForecastDeal)) = Num 100
   \<and> getProp prefixForecastProps ''hs_forecast_amount'' = Str ''12abc''
   \<and> getProp prefixForecastProps ''hs_projected_amount'' = Str ''12abc''
   \<and> \<not> numericString ''12abc''
   \<and> forecastAmount (projr (normalizeDeal sampleRuntime prefixForecastDeal)) = Num 12
   \<and> projectedAmount (projr (normalizeDeal sampleRuntime prefixForecastDeal)) = Num 12
   \<and> Num 100 \<noteq> Num 0 \<and> Num 12 \<noteq> Num 0"
  unfolding noForecastDeal_def prefixForecastDeal_def
    normalizeDeal_forecastAmount[OF sample_returns sample_properties]
    normalizeDeal_projectedAmount[OF sample_returns sample_properties]
  by (simp add: getProp_def noForecastProps_def prefixForecastProps_def orVal_def truthy_def
      orStr_def parseFloat_100 parseFloat_12abc not_numeric_12abc orNum_def truthy_num_def)

text \<open>
  C7, amended: when \<open>hs_forecast_amount\<close> (respectively \<open>hs_projected_amount\<close>) is
  absent, null or empty, \<open>forecastAmount\<close> (respectively \<open>projectedAmount\<close>) falls
  back to \<open>amount\<close> and equals the \<open>amount\<close> field of the normalized deal. When it is
  a non-empty string, the field does not depend on the other properties: it is 0 for
  a string that no number starts (\<open>parseFloat\<close> gives \<open>NaN\<close>; such a string is never
  numeric), and otherwise the number that \<open>parseFloat\<close> reads at the start of the
  string.
\<close>

theorem forecast_projected_fallback:
  assumes "normalizeDeal rt r = Inr d" "raw_properties r = Some props"
  shows "(\<not> truthy (getProp props ''hs_forecast_amount'') \<longrightarrow> forecastAmount d = amount d)
         \<and> (\<forall>s. getProp props ''hs_forecast_amount'' = Str s \<and> s \<noteq> [] \<and> parseFloat s = NaN
                \<longrightarrow> \<not> numericString s \<and> forecastAmount d = Num 0)
         \<and> (\<forall>s. getProp props ''hs_forecast_amount'' = Str s \<and> parseFloat s \<noteq> NaN
                \<longrightarrow> forecastAmount d = parseFloat s)
         \<and> (\<not> truthy (getProp props ''hs_projected_amount'') \<longrightarrow> projectedAmount d = amount d)
         \<and> (\<forall>s. getProp props ''hs_projected_amount'' = Str s \<and> s \<noteq> [] \<and> parseFloat s = NaN
                \<longrightarrow> \<not> numericString s \<and> projectedAmount d = Num 0)
         \<and> (\<forall>s. getProp props ''hs_projected_amount'' = Str s \<and> parseFloat s \<noteq> NaN
                \<longrightarrow> projectedAmount d = parseFloat s)"
proof -
  have f: "orNum (parseFloat (orStr (orVal v (getProp props ''amount'')) ''0'')) (Num 0)
           = amount d" if "\<not> truthy v" for v
    unfolding normalizeDeal_amount[OF assms] using that by (simp add: orVal_def)
  have g: "orNum (parseFloat (orStr (orVal (Str s) w) ''0'')) (Num 0)
           = (if parseFloat s = NaN then Num 0 else parseFloat s)" if "s \<noteq> []" for s w
    using that parse_or_zero[of s] by (simp add: orVal_def truthy_def)
  have n: "s \<noteq> []" if "parseFloat s \<noteq> NaN" for s
    using that parseFloat_empty by auto
  show ?thesis
    unfolding normalizeDeal_forecastAmount[OF assms] normalizeDeal_projectedAmount[OF assms]
    using f g n numericString_parseFloat by auto
qed

theorem forecast_projected_fallback_witness:
  "raw_properties badForecastDeal = Some badForecastProps
   \<and> getProp badForecastProps ''hs_forecast_amount'' = Str ''tbd''
   \<and> getProp badForecastProps ''hs_projected_amount'' = Str ''tbd''
   \<and> ''tbd'' \<noteq> [] \<and> parseFloat ''tbd'' = NaN \<and> \<not> numericString ''tbd''
   \<and> \<not> isl (normalizeDeal sampleRuntime badForecastDeal)
   \<and> forecastAmount (projr (normalizeDeal sampleRuntime badForecastDeal)) = Num 0
   \<and> projectedAmount (projr (normalizeDeal sampleRuntime badForecastDeal)) = Num 0
   \<and> amount (projr (normalizeDeal sampleRuntime badForecastDeal)) = Num 100
   \<and> raw_properties noForecastDeal = Some noForecastProps
   \<and> \<not> truthy (getProp noForecastProps ''hs_forecast_amount'')
   \<and> \<not> truthy (getProp noForecastProps ''hs_projected_amount'')
   \<and> \<not> isl (normalizeDeal sampleRuntime noForecastDeal)
   \<and> forecastAmount (projr (normalizeDeal sampleRuntime noForecastDeal)) = Num 100
   \<and> projectedAmount (projr (normalizeDeal sampleRuntime noForecastDeal)) = Num 100
   \<and> amount (projr (normalizeDeal sampleRuntime noForecastDeal)) = Num 100
   \<and> raw_properties prefixForecastDeal = Some prefixForecastProps
   \<and> getProp prefixForecastProps ''hs_forecast_amount'' = Str ''12abc''
   \<and> getProp prefixForecastProps ''hs_projected_amount'' = Str ''12abc''
   \<and> parseFloat ''12abc'' = Num 12
   \<and> \<not> isl (normalizeDeal sampleRuntime prefixForecastDeal)
   \<and> forecastAmount (projr (normalizeDeal sampleRuntime prefixForecastDeal)) = Num 12
   \<and> projectedAmount (projr (normalizeDeal sampleRuntime prefixForecastDeal)) = Num 12"
proof -
  have n: "normalizeDeal sampleRuntime badForecastDeal
           = Inr (projr (normalizeDeal sampleRuntime badForecastDeal))"
    "normalizeDeal sampleRuntime noForecastDeal
           = Inr (projr (normalizeDeal sampleRuntime noForecastDeal))"
    "normalizeDeal sampleRuntime prefixForecastDeal
           = Inr (projr (normalizeDeal sampleRuntime prefixForecastDeal))"
    unfolding badForecastDeal_def noForecastDeal_def prefixForecastDeal_def
    by (rule sample_returns)+
  have l: "\<not> isl (normalizeDeal sampleRuntime badForecastDeal)"
    "\<not> isl (normalizeDeal sampleRuntime noForecastDeal)"
    "\<not> isl (normalizeDeal sampleRuntime prefixForecastDeal)"
    by (simp_all add: normalizeDeal_isl_iff badForecastDeal_def noForecastDeal_def
        prefixForecastDeal_def rawWith_def)
  have p: "raw_properties badForecastDeal = Some badForecastProps"
    "raw_properties noForecastDeal = Some noForecastProps"
    "raw_properties prefixForecastDeal = Some prefixForecastProps"
    by (simp_all add: badForecastDeal_def noForecastDeal_def prefixForecastDeal_def
        sample_properties)
  have g: "getProp badForecastProps ''hs_forecast_amount'' = Str ''tbd''"
    "getProp badForecastProps ''hs_projected_amount'' = Str ''tbd''"
    "getProp badForecastProps ''amount'' = Str ''100''"
    "\<not> truthy (getProp noForecastProps ''hs_forecast_amount'')"
    "\<not> truthy (getProp noForecastProps ''hs_projected_amount'')"
    "getProp noForecastProps ''amount'' = Str ''100''"
    "getProp prefixForecastProps ''hs_forecast_amount'' = Str ''12abc''"
    "getProp prefixForecastProps ''hs_projected_amount'' = Str ''12abc''"
    by (simp_all add: getProp_def badForecastProps_def noForecastProps_def
        prefixForecastProps_def truthy_def)
  have a: "amount (projr (normalizeDeal sampleRuntime badForecastDeal)) = Num 100"
    "amount (projr (normalizeDeal sampleRuntime noForecastDeal)) = Num 100"
    unfolding normalizeDeal_amount[OF n(1) p(1)] normalizeDeal_amount[OF n(2) p(2)]
    by (simp_all add: g orStr_def parseFloat_100 orNum_def truthy_num_def)
  from forecast_projected_fallback[OF n(1) p(1)] forecast_projected_fallback[OF n(2) p(2)]
    forecast_projected_fallback[OF n(3) p(3)]
    l p g a parseFloat_tbd parseFloat_12abc not_numeric_tbd
  show ?thesis by simp
qed

section \<open>Properties of the sync driver\<close>

subsection \<open>The properties that are forwarded\<close>

lemma cleanLoop_Some:
  "cleanLoop es cp k = Some v \<Longrightarrow> cp k = Some v \<or> ((k, Str v) \<in> set es \<and> v \<noteq> [])"
proof (induction es arbitrary: cp)
  case Nil
  then show ?case by simp
next
  case (Cons e es)
  obtain key val where e: "e = (key, val)" by (cases e)
  show ?case
  proof (cases "val \<noteq> Null \<and> val \<noteq> Undefined \<and> val \<noteq> Str []")
    case True
    then obtain s where s: "val = Str s" "s \<noteq> []" by (cases val) auto
    from Cons.prems e True have "cleanLoop es (cp(key \<mapsto> String_of val)) k = Some v"
      by simp
    from Cons.IH[OF this] show ?thesis
      using e s by (auto simp: String_of_def split: if_splits)
  next
    case False
    with Cons.prems e have "cleanLoop es cp k = Some v" by auto
    from Cons.IH[OF this] show ?thesis by auto
  qed
qed

lemma dealData_properties:
  assumes "ing_properties (dealData deal) k = Some v"
  shows "v \<noteq> [] \<and> (\<exists>props. src_properties deal = Some props \<and> (k, Str v) \<in> set props)"
proof -
  from assms
  have "cleanLoop (case src_properties deal of Some props \<Rightarrow> props | None \<Rightarrow> []) Map.empty k
        = Some v"
    by (simp add: dealData_def)
  from cleanLoop_Some[OF this] show ?thesis
    by (cases "src_properties deal") auto
qed

text \<open>
  Conversely nothing that has a value is lost: in an object (its keys are distinct) a
  property whose value is a non-empty string is forwarded with that value.
\<close>

lemma cleanLoop_keeps:
  "distinct (map fst es) \<Longrightarrow>
   cleanLoop es cp k = (case map_of es k of
                          Some (Str s) \<Rightarrow> if s \<noteq> [] then Some s else cp k
                        | Some _ \<Rightarrow> cp k
                        | None \<Rightarrow> cp k)"
proof (induction es arbitrary: cp)
  case Nil
  then show ?case by simp
next
  case (Cons e es)
  obtain key val where e: "e = (key, val)" by (cases e)
  from Cons.prems e have d: "distinct (map fst es)" and nk: "map_of es key = None"
    by (auto simp: map_of_eq_None_iff)
  show ?case
    using nk
    by (cases val)
      (auto simp: e Cons.IH[OF d] String_of_def split: option.splits prop_value.splits)
qed

lemma sent_loopBody: "sent (loopBody env deal st) = sent st @ [dealData deal]"
  by (simp add: loopBody_def Let_def split: fetch_result.splits)

lemma sent_streamLoop:
  "set (sent (snd (streamLoop env s st))) \<subseteq> set (sent st) \<union> dealData ` set (yielded s)"
proof (induction s arbitrary: st)
  case (Yield deal rest)
  show ?case
    using Yield.IH[of "loopBody env deal st"] by (auto simp: sent_loopBody)
qed simp_all

lemma posted_subset:
  "set (posted (syncHubSpotDeals env)) \<subseteq> dealData ` set (yielded (streamDeals env))"
proof -
  let ?st0 = "\<lparr>dealCount = 0, successCount = 0, errorCount = 0, sent = []\<rparr>"
  have "set (posted (syncHubSpotDeals env))
        \<subseteq> set (sent (snd (streamLoop env (streamDeals env) ?st0)))"
    by (auto simp: syncHubSpotDeals_def split: option.splits prod.splits)
  also have "\<dots> \<subseteq> dealData ` set (yielded (streamDeals env))"
    using sent_streamLoop[of env "streamDeals env" ?st0] by simp
  finally show ?thesis .
qed

lemma loopBody_counts:
  "dealCount (loopBody env deal st) = dealCount st + 1"
  "successCount (loopBody env deal st)
   = successCount st + (if forwardingFails env (dealCount st + 1) deal then 0 else 1)"
  "errorCount (loopBody env deal st)
   = errorCount st + (if forwardingFails env (dealCount st + 1) deal then 1 else 0)"
  by (simp_all add: loopBody_def forwardingFails_def Let_def split: fetch_result.splits)

lemma streamLoop_streamOf:
  "streamLoop env (streamOf ds) st =
     (None,
      st\<lparr>dealCount := dealCount st + length ds,
         successCount :=
           successCount st
           + length (filter (\<lambda>(i, d). \<not> forwardingFails env i d)
                       (enumerate (dealCount st + 1) ds)),
         errorCount :=
           errorCount st
           + length (filter (\<lambda>(i, d). forwardingFails env i d)
                       (enumerate (dealCount st + 1) ds)),
         sent := sent st @ map dealData ds\<rparr>)"
proof (induction ds arbitrary: st)
  case Nil
  then show ?case by (simp add: streamOf_def)
next
  case (Cons d ds)
  have "streamLoop env (streamOf (d # ds)) st
        = streamLoop env (streamOf ds) (loopBody env d st)"
    by (simp add: streamOf_def)
  then show ?case
    by (simp add: Cons.IH loopBody_counts sent_loopBody)
qed

lemma dealData_sparse:
  "ing_properties (dealData (connectorDeal i)) = [''dealname'' \<mapsto> ''Sparse'']"
  by (simp add: dealData_def connectorDeal_def sparseProps_def String_of_def)

text \<open>
  C8: for every deal streamed by the sync driver, the properties mapping of the body
  posted to the ingestion endpoint holds only keys whose value in the deal was a
  non-empty string, with that value; a key that is absent, or whose value is null,
  undefined or the empty string, is not in the mapping, and no value in the mapping
  is the empty string.
\<close>

theorem posted_properties_clean:
  assumes "body \<in> set (posted (syncHubSpotDeals env))" "ing_properties body k = Some v"
  shows "v \<noteq> []
         \<and> (\<exists>deal props. deal \<in> set (yielded (streamDeals env)) \<and> body = dealData deal
               \<and> src_properties deal = Some props \<and> (k, Str v) \<in> set props)"
proof -
  from assms(1) posted_subset
  obtain deal where d: "deal \<in> set (yielded (streamDeals env))" "body = dealData deal"
    by blast
  with dealData_properties[of deal k v] assms(2) show ?thesis by blast
qed

theorem posted_properties_clean_witness:
  "dealData (connectorDeal ''2'') \<in> set (posted (syncHubSpotDeals sampleEnv))
   \<and> ing_properties (dealData (connectorDeal ''2'')) ''dealname'' = Some ''Sparse''
   \<and> ing_properties (dealData (connectorDeal ''2'')) ''amount'' = None
   \<and> ing_properties (dealData (connectorDeal ''2'')) ''dealtype'' = None
   \<and> ing_properties (dealData (connectorDeal ''2'')) ''pipeline'' = None
   \<and> ''Sparse'' \<noteq> []
   \<and> (\<exists>deal props. deal \<in> set (yielded (streamDeals sampleEnv))
         \<and> dealData (connectorDeal ''2'') = dealData deal
         \<and> src_properties deal = Some props \<and> (''dealname'', Str ''Sparse'') \<in> set props)"
proof -
  have s: "posted (syncHubSpotDeals sampleEnv) = map dealData threeDeals"
    by (simp add: syncHubSpotDeals_def sampleEnv_def orUndefined_def streamLoop_streamOf)
  have m: "dealData (connectorDeal ''2'') \<in> set (posted (syncHubSpotDeals sampleEnv))"
    by (simp add: s threeDeals_def)
  have k: "ing_properties (dealData (connectorDeal ''2'')) ''dealname'' = Some ''Sparse''"
    by (simp add: dealData_sparse)
  from posted_properties_clean[OF m k] m k show ?thesis
    by (simp add: dealData_sparse)
qed

subsection \<open>Counting through failures\<close>

lemma streamLoop_yielded:
  "streamLoop env s st =
     (streamError s,
      st\<lparr>dealCount := dealCount st + length (yielded s),
         successCount :=
           successCount st
           + length (filter (\<lambda>(i, d). \<not> forwardingFails env i d)
                       (enumerate (dealCount st + 1) (yielded s))),
         errorCount :=
           errorCount st
           + length (filter (\<lambda>(i, d). forwardingFails env i d)
                       (enumerate (dealCount st + 1) (yielded s))),
         sent := sent st @ map dealData (yielded s)\<rparr>)"
proof (induction s arbitrary: st)
  case StreamEnd
  then show ?case by simp
next
  case (StreamThrows e)
  then show ?case by simp
next
  case (Yield deal rest)
  show ?case
    by (simp add: Yield.IH loopBody_counts sent_loopBody)
qed

lemma tokenSet_check:
  "(orUndefined (case HUBSPOT_TOKEN env of Some t \<Rightarrow> Str t | None \<Rightarrow> Undefined) = None)
   = (\<not> tokenSet env)"
  by (simp add: tokenSet_def orUndefined_def split: option.splits)

lemma yielded_streamOf: "yielded (streamOf ds) = ds"
  by (induction ds) (simp_all add: streamOf_def)

lemma streamError_streamOf: "streamError (streamOf ds) = None"
  by (induction ds) (simp_all add: streamOf_def)

lemma sampleFails: "forwardingFails env n d = (n = 2)" if "fetch env = sampleFetch"
  using that by (simp add: forwardingFails_def sampleFetch_def)

text \<open>
  C9, as the specification states it, fails: not every run reports a final summary.
  In both runs below the second deal fails to be forwarded and the loop goes on, but
  the run ends by throwing (\<open>disconnect\<close> throws in the first, the stream throws after
  its second deal in the second) and the final statistics are not logged.
\<close>

theorem no_summary_when_run_aborts:
  "forwardingFails failingDisconnectEnv 2 (connectorDeal ''2'')
   \<and> posted (syncHubSpotDeals failingDisconnectEnv) = map dealData threeDeals
   \<and> thrown (syncHubSpotDeals failingDisconnectEnv) = Some ''socket hang up''
   \<and> finalStats (syncHubSpotDeals failingDisconnectEnv) = None
   \<and> forwardingFails brokenStreamEnv 2 (connectorDeal ''2'')
   \<and> posted (syncHubSpotDeals brokenStreamEnv)
     = [dealData (connectorDeal ''1''), dealData (connectorDeal ''2'')]
   \<and> thrown (syncHubSpotDeals brokenStreamEnv) = Some ''RemoteUnavailable''
   \<and> finalStats (syncHubSpotDeals brokenStreamEnv) = None"
  by (simp add: sampleFails failingDisconnectEnv_def brokenStreamEnv_def brokenStream_def
      syncHubSpotDeals_def orUndefined_def streamLoop_yielded yielded_streamOf
      streamError_streamOf)

text \<open>
  C9, amended: in every run, each turn of the loop counts the deal, adds one to the
  error count when forwarding it fails and one to the success count otherwise, and
  goes on with the rest of the stream; every deal that the stream yields is posted
  (when the token is set and \<open>connect\<close> succeeds). The final statistics, which are
  the number of deals, the number forwarded and the number of failures, are reported
  exactly when the token is set, \<open>connect\<close> succeeds, the stream ends without throwing
  and \<open>disconnect\<close> succeeds; every other run throws and reports none.
\<close>

theorem sync_run_summary:
  "(\<forall>deal rest st.
      streamLoop env (Yield deal rest) st = streamLoop env rest (loopBody env deal st)
      \<and> dealCount (loopBody env deal st) = dealCount st + 1
      \<and> errorCount (loopBody env deal st)
        = errorCount st + (if forwardingFails env (dealCount st + 1) deal then 1 else 0)
      \<and> successCount (loopBody env deal st)
        = successCount st + (if forwardingFails env (dealCount st + 1) deal then 0 else 1))
   \<and> posted (syncHubSpotDeals env)
     = (if tokenSet env \<and> connect env = None
        then map dealData (yielded (streamDeals env)) else [])
   \<and> finalStats (syncHubSpotDeals env)
     = (if tokenSet env \<and> connect env = None \<and> streamError (streamDeals env) = None
           \<and> disconnect env = None
        then Some (length (yielded (streamDeals env)),
                   length (filter (\<lambda>(i, d). \<not> forwardingFails env i d)
                             (enumerate 1 (yielded (streamDeals env)))),
                   length (filter (\<lambda>(i, d). forwardingFails env i d)
                             (enumerate 1 (yielded (streamDeals env)))))
        else None)
   \<and> (thrown (syncHubSpotDeals env) = None) = (finalStats (syncHubSpotDeals env) \<noteq> None)"
proof -
  have "posted (syncHubSpotDeals env)
     = (if tokenSet env \<and> connect env = None
        then map dealData (yielded (streamDeals env)) else [])"
    by (simp add: syncHubSpotDeals_def tokenSet_check streamLoop_yielded split: option.splits)
  moreover have "finalStats (syncHubSpotDeals env)
     = (if tokenSet env \<and> connect env = None \<and> streamError (streamDeals env) = None
           \<and> disconnect env = None
        then Some (length (yielded (streamDeals env)),
                   length (filter (\<lambda>(i, d). \<not> forwardingFails env i d)
                             (enumerate 1 (yielded (streamDeals env)))),
                   length (filter (\<lambda>(i, d). forwardingFails env i d)
                             (enumerate 1 (yielded (streamDeals env)))))
        else None)"
    by (simp add: syncHubSpotDeals_def tokenSet_check streamLoop_yielded split: option.splits)
  moreover have "(thrown (syncHubSpotDeals env) = None) = (finalStats (syncHubSpotDeals env) \<noteq> None)"
    by (simp add: syncHubSpotDeals_def tokenSet_check streamLoop_yielded split: option.splits)
  ultimately show ?thesis by (simp add: loopBody_counts)
qed

theorem sync_run_summary_witness:
  "tokenSet sampleEnv \<and> connect sampleEnv = None \<and> streamError (streamDeals sampleEnv) = None
   \<and> disconnect sampleEnv = None
   \<and> forwardingFails sampleEnv 2 (connectorDeal ''2'')
   \<and> posted (syncHubSpotDeals sampleEnv) = map dealData threeDeals
   \<and> finalStats (syncHubSpotDeals sampleEnv) = Some (3, 2, 1)
   \<and> thrown (syncHubSpotDeals sampleEnv) = None
   \<and> tokenSet brokenStreamEnv \<and> connect brokenStreamEnv = None
   \<and> streamError (streamDeals brokenStreamEnv) = Some ''RemoteUnavailable''
   \<and> posted (syncHubSpotDeals brokenStreamEnv)
     = [dealData (connectorDeal ''1''), dealData (connectorDeal ''2'')]
   \<and> finalStats (syncHubSpotDeals brokenStreamEnv) = None
   \<and> thrown (syncHubSpotDeals brokenStreamEnv) \<noteq> None"
proof -
  have h: "tokenSet sampleEnv" "connect sampleEnv = None" "disconnect sampleEnv = None"
    "streamDeals sampleEnv = streamOf threeDeals" "fetch sampleEnv = sampleFetch"
    "tokenSet brokenStreamEnv" "connect brokenStreamEnv = None"
    "streamDeals brokenStreamEnv = brokenStream" "fetch brokenStreamEnv = sampleFetch"
    by (simp_all add: sampleEnv_def brokenStreamEnv_def tokenSet_def)
  have e: "enumerate 1 threeDeals
           = [(1, connectorDeal ''1''), (2, connectorDeal ''2''), (3, connectorDeal ''3'')]"
    by (simp add: threeDeals_def)
  from sync_run_summary[of sampleEnv] sync_run_summary[of brokenStreamEnv] h e
  show ?thesis
    by (simp add: sampleFails yielded_streamOf streamError_streamOf brokenStream_def
        threeDeals_def)
qed

end
